theory Spec2Isabelle
  imports Main "HOL-Library.Sublist"
begin

section \<open>Execution session capture and submission: saveCellExecution\<close>

text \<open>
  A shallow embedding of \<^verbatim>\<open>saveCellExecution\<close>
  (src/extension/messages/platformRequest/saveCellExecution.ts).  One call of the
  function is one run.  Everything the run reads from a collaborator is a field of
  \<open>Env\<close>; everything it does to the outside is an \<open>Effect\<close> appended to the
  trace of the \<open>Runtime\<close>, which also holds the state shared between runs: the
  module variable \<^verbatim>\<open>currentCts\<close>, the cancellation token sources and the
  listener registry of \<^verbatim>\<open>AuthSessionChangeHandler\<close>.
\<close>

subsection \<open>Values\<close>

type_synonym Session = string
type_synonym bytes = "nat list"

text \<open>
  JavaScript truthiness of a \<^verbatim>\<open>string | undefined\<close>: \<^verbatim>\<open>undefined\<close> and the
  empty string are falsy.
\<close>

definition truthy :: "string option \<Rightarrow> bool" where
  "truthy v = (case v of None \<Rightarrow> False | Some s \<Rightarrow> s \<noteq> [])"

text \<open>The awaits of the function body, in program order.\<close>

datatype Step =
    AwaitCurrentSession
  | AwaitNewSession
  | AwaitOpenCloudPanel
  | AwaitAuthRace
  | AwaitPostClientMessage
  | AwaitInitializeCloudClient
  | AwaitGetGitContext
  | AwaitReadFile
  | AwaitSave
  | AwaitGetPlainCache
  | AwaitGetMaskedCache
  | AwaitGetCellById
  | AwaitProcessId
  | AwaitMutate

text \<open>
  What a \<^verbatim>\<open>throw\<close> or a rejected promise carries: an \<^verbatim>\<open>Error\<close> with its
  message, or the bare \<^verbatim>\<open>undefined\<close> of the timer's \<^verbatim>\<open>reject(undefined)\<close>.
\<close>

datatype Thrown = Error string | Undefined

text \<open>
  How a piece of the body ends: it goes on with a value, the function returns, or an
  exception travels to the enclosing \<^verbatim>\<open>catch\<close>.
\<close>

datatype 'a Outcome = Value 'a | Return | Throw Thrown

subsection \<open>The reply message and the two mutations\<close>

datatype ReplyData = DisplayShare bool | FetchResult string | Message string

datatype ApiResponse = ApiResponse (data: ReplyData) (responseId: string) (hasErrors: bool)

record OutputItem =
  mime :: string
  itemData :: bytes

record CellOutput =
  items :: "OutputItem list option"
  outputMetadata :: string

record ReporterCell =
  metadataId :: string
  cellValue :: string
  outputs :: "CellOutput list option"

record Notebook =
  cells :: "ReporterCell list"
  frontmatterRunmeId :: "string option"

record GitContext =
  repository :: "string option"
  branch :: "string option"
  commit :: "string option"
  relativePath :: string

record ReporterInput =
  r_autoSave :: bool
  r_hostname :: string
  r_fileContent :: "bytes option"
  r_filePath :: string
  r_branch :: "string option"
  r_commit :: "string option"
  r_repository :: "string option"
  r_maskedOutput :: "bytes option"
  r_plainOutput :: "bytes option"
  r_cells :: "ReporterCell list"
  r_frontmatterRunmeId :: "string option"

record LegacyInput =
  l_stdout :: bytes
  l_stderr :: bytes
  l_exitCode :: int
  l_pid :: nat
  l_languageId :: string
  l_autoSave :: bool
  l_exitType :: "string option"
  l_branch :: "string option"
  l_repository :: "string option"
  l_commit :: "string option"
  l_fileContent :: "bytes option"
  l_filePath :: string
  l_plainSessionOutput :: "bytes option"
  l_maskedSessionOutput :: "bytes option"
  l_hostname :: string

datatype Mutation = CreateExtensionCellOutput ReporterInput | CreateCellExecution LegacyInput

subsection \<open>The terminal and the live cell of the legacy path\<close>

record RunnerExitStatus =
  statusType :: string
  code :: int

record RunnerSession =
  hasExited :: "RunnerExitStatus option"

record Terminal =
  processId :: "nat option"
  runnerSession :: "RunnerSession option"

record NotebookCell =
  runmeId :: string
  documentText :: string
  languageId :: string

subsection \<open>Effects and the state shared between runs\<close>

datatype Effect =
    Suspend Step
  | CtsCancel nat
  | CtsNew nat
  | CtsDispose nat
  | ExecuteCommand string
  | AddListener nat
  | RemoveListener nat
  | EmitterDispose
  | PostClientMessage ApiResponse
  | ShowWarningMessage string
  | GraphMutate Mutation
  | SendTelemetryEvent string

text \<open>
  A cancellation token source is named by the number under which it was created; its
  token has the same name.  \<open>currentCts\<close> is the module variable of the same name.
  The listener callback of a run is named by the run's token.
\<close>

record Runtime =
  currentCts :: "nat option"
  ctsCount :: nat
  cancelled :: "nat list"
  disposed :: "nat list"
  listeners :: "nat list"
  effects :: "Effect list"

definition emit :: "Effect \<Rightarrow> Runtime \<Rightarrow> Runtime" where
  "emit e s = s\<lparr>effects := effects s @ [e]\<rparr>"

definition isCancellationRequested :: "nat \<Rightarrow> Runtime \<Rightarrow> bool" where
  "isCancellationRequested tok s = (tok \<in> set (cancelled s))"

definition ctsCancel :: "nat \<Rightarrow> Runtime \<Rightarrow> Runtime" where
  "ctsCancel c s = emit (CtsCancel c) (s\<lparr>cancelled := c # cancelled s\<rparr>)"

text \<open>Lines 67 to 72: the synchronous head of every run.\<close>

definition beginRun :: "Runtime \<Rightarrow> nat \<times> Runtime" where
  "beginRun s =
     (let s1 = (case currentCts s of Some c \<Rightarrow> ctsCancel c s | None \<Rightarrow> s);
          t = ctsCount s1
      in (t, emit (CtsNew t) (s1\<lparr>currentCts := Some t, ctsCount := Suc t\<rparr>)))"

text \<open>Lines 389 to 394: the outer \<^verbatim>\<open>finally\<close>.\<close>

definition endRun :: "nat \<Rightarrow> Runtime \<Rightarrow> Runtime" where
  "endRun tok s =
     (if currentCts s = Some tok
      then emit (CtsDispose tok) (s\<lparr>disposed := tok # disposed s, currentCts := None\<rparr>)
      else s)"

definition addListener :: "nat \<Rightarrow> Runtime \<Rightarrow> Runtime" where
  "addListener cb s = emit (AddListener cb) (s\<lparr>listeners := listeners s @ [cb]\<rparr>)"

definition removeListener :: "nat \<Rightarrow> Runtime \<Rightarrow> Runtime" where
  "removeListener cb s = emit (RemoveListener cb) (s\<lparr>listeners := remove1 cb (listeners s)\<rparr>)"

definition postClientMessage :: "ReplyData \<Rightarrow> string \<Rightarrow> bool \<Rightarrow> Runtime \<Rightarrow> Runtime" where
  "postClientMessage d i h s = emit (PostClientMessage (ApiResponse d i h)) s"

subsection \<open>The environment of one run\<close>

text \<open>
  How the interactive race of lines 103 to 112 settles.  The flag says whether the
  auth-state-change callback (lines 89 to 94) ran before the race settled; it always did
  when the event promise won.
\<close>

datatype RaceOutcome =
    Resolved "Session option"
  | TimedOut bool
  | Superseded bool

record Message =
  outputId :: string
  isUserAction :: bool
  stdout :: string

text \<open>
  \<open>rejects step\<close> is the message of the error with which the collaborator awaited at
  \<open>step\<close> rejects, if it does.  \<open>newerRunStarts step\<close> says that another call of
  \<^verbatim>\<open>saveCellExecution\<close> begins while this run is suspended at \<open>step\<close>; for the
  race that is the outcome \<open>Superseded\<close>, and the race itself rejects only by its timer
  or by cancellation, so neither field is read at \<open>AwaitAuthRace\<close>.  Posting a reply
  is taken to succeed.  \<open>currentSession\<close> and \<open>newSession\<close> are what the calls of
  lines 78 and 81 resolve to.  The three lookups are functions of their key.
  \<open>stdoutMime\<close> is \<^verbatim>\<open>OutputType.stdout\<close>, a member the constants module at hand
  does not declare: its value is a parameter, \<open>None\<close> where the member is
  \<^verbatim>\<open>undefined\<close>.  \<open>stdout\<close> of the message is the text as its UTF-8 bytes.
\<close>

record Env =
  isReporterEnabled :: bool
  autoSaveIsOn :: bool
  forceLogin :: bool
  currentSession :: "Session option"
  newSession :: "Session option"
  race :: RaceOutcome
  rejects :: "Step \<Rightarrow> string option"
  newerRunStarts :: "Step \<Rightarrow> bool"
  fsPath :: string
  gitCtx :: GitContext
  fileBytes :: bytes
  cacheId :: string
  plainCache :: "bytes option"
  maskedCache :: "bytes option"
  osHostname :: string
  K_SERVICE :: "string option"
  stdoutMime :: "string option"
  getNotebookDataCache :: "string \<Rightarrow> Notebook option"
  getCellById :: "string \<Rightarrow> NotebookCell option"
  getTerminal :: "string \<Rightarrow> Terminal option"
  mutateResult :: string

subsection \<open>Suspension\<close>

text \<open>
  While a run is suspended, the only thing another run does to what this run can
  observe is the head of a newer call: it cancels the token in the slot and installs
  its own.  (The \<^verbatim>\<open>finally\<close> of another run clears the slot only when the slot
  holds that other run's token; the slot then did not hold this run's token before and
  does not after, so this run's own test of the slot reads the same.)
\<close>

definition otherRuns :: "Env \<Rightarrow> Step \<Rightarrow> Runtime \<Rightarrow> Runtime" where
  "otherRuns env step s = (if newerRunStarts env step then snd (beginRun s) else s)"

definition suspend :: "Env \<Rightarrow> Step \<Rightarrow> Runtime \<Rightarrow> Runtime" where
  "suspend env step s = otherRuns env step (emit (Suspend step) s)"

definition await :: "Env \<Rightarrow> Step \<Rightarrow> Runtime \<Rightarrow> unit Outcome \<times> Runtime" where
  "await env step s =
     (case rejects env step of Some m \<Rightarrow> Throw (Error m) | None \<Rightarrow> Value (),
      suspend env step s)"

definition andThen ::
  "'a Outcome \<times> Runtime \<Rightarrow> ('a \<Rightarrow> Runtime \<Rightarrow> 'b Outcome \<times> Runtime) \<Rightarrow> 'b Outcome \<times> Runtime" where
  "andThen r f =
     (case r of
        (Value v, s) \<Rightarrow> f v s
      | (Return, s) \<Rightarrow> (Return, s)
      | (Throw e, s) \<Rightarrow> (Throw e, s))"

subsection \<open>Lines 173 to 176: the hostname\<close>

definition resolveHostname :: "string \<Rightarrow> string option \<Rightarrow> string" where
  "resolveHostname hostname kService =
     (if hostname \<in> set [''localhost'', ''127.0.0.1''] \<and> truthy kService
      then the kService else hostname)"

subsection \<open>Lines 283 to 290: process id and exit code\<close>

definition pidOf :: "nat option \<Rightarrow> nat" where
  "pidOf p = (case p of None \<Rightarrow> 0 | Some n \<Rightarrow> if n = 0 then 0 else n)"

definition runnerExitStatusOf :: "Terminal \<Rightarrow> RunnerExitStatus option" where
  "runnerExitStatusOf terminal =
     (case runnerSession terminal of None \<Rightarrow> None | Some rs \<Rightarrow> hasExited rs)"

definition exitCodeOf :: "RunnerExitStatus option \<Rightarrow> int" where
  "exitCodeOf st =
     (if map_option statusType st = Some ''exit'' then code (the st)
      else if map_option statusType st = Some ''error'' then 1
      else 0)"

subsection \<open>Lines 139 to 142: the submitted file path and content\<close>

text \<open>\<^verbatim>\<open>path?.split('/').pop()\<close>: what follows the last slash.\<close>

definition lastSegment :: "string \<Rightarrow> string" where
  "lastSegment path = rev (takeWhile (\<lambda>c. c \<noteq> CHR ''/'') (rev path))"

definition filePathOf :: "GitContext \<Rightarrow> string \<Rightarrow> string" where
  "filePathOf g path =
     (if truthy (repository g) then relativePath g @ lastSegment path else path)"

definition fileContentOf :: "Env \<Rightarrow> bytes option" where
  "fileContentOf env = (if fsPath env \<noteq> [] then Some (fileBytes env) else None)"

subsection \<open>Lines 78 to 135: resolving the session\<close>

definition authRace :: "Env \<Rightarrow> nat \<Rightarrow> Runtime \<Rightarrow> Session option Outcome \<times> Runtime" where
  "authRace env tok s =
     (let s1 = emit (Suspend AwaitAuthRace) s
      in case race env of
           Resolved session \<Rightarrow> (Value session, removeListener tok s1)
         | TimedOut cb \<Rightarrow> (Throw Undefined, if cb then removeListener tok s1 else s1)
         | Superseded cb \<Rightarrow>
             (Throw (Error ''Operation cancelled''),
              snd (beginRun (if cb then removeListener tok s1 else s1))))"

definition timeoutWarning :: string where
  "timeoutWarning = ''Saving timed out. Sign in to save your cells. Please try again.''"

text \<open>
  Lines 85 to 134.  The \<^verbatim>\<open>finally\<close> of the race returns on cancellation and on a
  missing session, which drops a pending rejection; otherwise the race's own completion
  stands.
\<close>

definition interactiveLogin ::
  "Env \<Rightarrow> Message \<Rightarrow> nat \<Rightarrow> Runtime \<Rightarrow> Session option Outcome \<times> Runtime" where
  "interactiveLogin env message tok s =
     andThen (await env AwaitOpenCloudPanel (emit (ExecuteCommand ''runme.openCloudPanel'') s))
       (\<lambda>_ s1.
          let s2 = addListener tok s1
          in if isCancellationRequested tok s2 then (Return, s2)
             else
               let settled = authRace env tok s2;
                   session = (case fst settled of Value v \<Rightarrow> v | _ \<Rightarrow> None);
                   s4 = emit EmitterDispose (snd settled)
               in if isCancellationRequested tok s4 then (Return, s4)
                  else if session = None
                  then (Return,
                        emit (ShowWarningMessage timeoutWarning)
                          (suspend env AwaitPostClientMessage
                             (postClientMessage (DisplayShare False) (outputId message) False s4)))
                  else (fst settled, s4))"

definition resolveSession ::
  "Env \<Rightarrow> Message \<Rightarrow> nat \<Rightarrow> Runtime \<Rightarrow> Session option Outcome \<times> Runtime" where
  "resolveSession env message tok s =
     andThen (await env AwaitCurrentSession s)
       (\<lambda>_ s1.
          andThen
            (if currentSession env = None \<and> forceLogin env
             then andThen (await env AwaitNewSession s1) (\<lambda>_ s2. (Value (newSession env), s2))
             else (Value (currentSession env), s1))
            (\<lambda>session s3.
               if session = None \<and> isUserAction message
               then interactiveLogin env message tok s3
               else (Value session, s3)))"

subsection \<open>Lines 194 to 270: the reporter mutation\<close>

text \<open>\<^verbatim>\<open>cell?.outputs || []\<close> and \<^verbatim>\<open>output?.items || []\<close>.\<close>

definition outputsOf :: "ReporterCell \<Rightarrow> CellOutput list" where
  "outputsOf cell = (case outputs cell of None \<Rightarrow> [] | Some os \<Rightarrow> os)"

definition itemsOf :: "CellOutput \<Rightarrow> OutputItem list" where
  "itemsOf output = (case items output of None \<Rightarrow> [] | Some xs \<Rightarrow> xs)"

text \<open>Lines 249 to 259: the cell as it is embedded in the mutation.\<close>

definition redact :: "string option \<Rightarrow> ReporterCell \<Rightarrow> ReporterCell" where
  "redact stdoutKind cell =
     cell\<lparr>outputs :=
       Some (map (\<lambda>output.
                    output\<lparr>items := Some (filter (\<lambda>item. Some (mime item) = stdoutKind) (itemsOf output))\<rparr>)
               (outputsOf cell))\<rparr>"

definition reporterInput :: "Env \<Rightarrow> Notebook \<Rightarrow> ReporterCell \<Rightarrow> ReporterInput" where
  "reporterInput env notebook cell =
     \<lparr> r_autoSave = autoSaveIsOn env,
       r_hostname = resolveHostname (osHostname env) (K_SERVICE env),
       r_fileContent = fileContentOf env,
       r_filePath = filePathOf (gitCtx env) (fsPath env),
       r_branch = branch (gitCtx env),
       r_commit = commit (gitCtx env),
       r_repository = repository (gitCtx env),
       r_maskedOutput = maskedCache env,
       r_plainOutput = plainCache env,
       r_cells = [redact (stdoutMime env) cell],
       r_frontmatterRunmeId = frontmatterRunmeId notebook \<rparr>"

definition mutate :: "Env \<Rightarrow> Mutation \<Rightarrow> Runtime \<Rightarrow> string Outcome \<times> Runtime" where
  "mutate env m s =
     andThen (await env AwaitMutate (emit (GraphMutate m) s))
       (\<lambda>_ s1. (Value (mutateResult env), s1))"

text \<open>Lines 195 to 210: the cached notebook and the target cell in it.\<close>

definition findReporterCell :: "Env \<Rightarrow> Message \<Rightarrow> Thrown + Notebook \<times> ReporterCell" where
  "findReporterCell env message =
     (case getNotebookDataCache env (cacheId env) of
        None \<Rightarrow> Inl (Error (''Notebook data cache not found for cache ID: '' @ cacheId env))
      | Some notebook \<Rightarrow>
          (case find (\<lambda>c. metadataId c = outputId message) (cells notebook) of
             None \<Rightarrow>
               Inl (Error (''Cell not found in notebook '' @
                 (case frontmatterRunmeId notebook of None \<Rightarrow> ''undefined'' | Some i \<Rightarrow> i)))
           | Some cell \<Rightarrow> Inr (notebook, cell)))"

definition submitReporter :: "Env \<Rightarrow> Message \<Rightarrow> Runtime \<Rightarrow> string Outcome \<times> Runtime" where
  "submitReporter env message s =
     (case findReporterCell env message of
        Inl e \<Rightarrow> (Throw e, s)
      | Inr (notebook, cell) \<Rightarrow>
          mutate env (CreateExtensionCellOutput (reporterInput env notebook cell)) s)"

subsection \<open>Lines 272 to 372: the legacy mutation\<close>

definition legacyInput :: "Env \<Rightarrow> Message \<Rightarrow> NotebookCell \<Rightarrow> Terminal \<Rightarrow> LegacyInput" where
  "legacyInput env message cell terminal =
     \<lparr> l_stdout = map of_char (stdout message),
       l_stderr = [],
       l_exitCode = exitCodeOf (runnerExitStatusOf terminal),
       l_pid = pidOf (processId terminal),
       l_languageId = languageId cell,
       l_autoSave = autoSaveIsOn env,
       l_exitType = map_option statusType (runnerExitStatusOf terminal),
       l_branch = branch (gitCtx env),
       l_repository = repository (gitCtx env),
       l_commit = commit (gitCtx env),
       l_fileContent = fileContentOf env,
       l_filePath = filePathOf (gitCtx env) (fsPath env),
       l_plainSessionOutput = plainCache env,
       l_maskedSessionOutput = maskedCache env,
       l_hostname = resolveHostname (osHostname env) (K_SERVICE env) \<rparr>"

text \<open>Lines 273 to 282: the live cell and its terminal.\<close>

definition findLegacyCell :: "Env \<Rightarrow> Message \<Rightarrow> Thrown + NotebookCell \<times> Terminal" where
  "findLegacyCell env message =
     (case getCellById env (outputId message) of
        None \<Rightarrow> Inl (Error ''Cell not found'')
      | Some cell \<Rightarrow>
          (case getTerminal env (runmeId cell) of
             None \<Rightarrow> Inl (Error ''Could not find an associated terminal'')
           | Some terminal \<Rightarrow> Inr (cell, terminal)))"

definition submitLegacy :: "Env \<Rightarrow> Message \<Rightarrow> Runtime \<Rightarrow> string Outcome \<times> Runtime" where
  "submitLegacy env message s =
     andThen (await env AwaitGetCellById s)
       (\<lambda>_ s1.
          case findLegacyCell env message of
            Inl e \<Rightarrow> (Throw e, s1)
          | Inr (cell, terminal) \<Rightarrow>
              andThen (await env AwaitProcessId s1)
                (\<lambda>_ s2. mutate env (CreateCellExecution (legacyInput env message cell terminal)) s2))"

subsection \<open>Lines 137 to 380: collecting, submitting, replying\<close>

definition collectAndSubmit ::
  "Env \<Rightarrow> Message \<Rightarrow> Session option \<Rightarrow> Runtime \<Rightarrow> unit Outcome \<times> Runtime" where
  "collectAndSubmit env message session s =
     andThen (await env AwaitInitializeCloudClient s) (\<lambda>_ s1.
     andThen (await env AwaitGetGitContext s1) (\<lambda>_ s2.
     andThen (if fsPath env \<noteq> [] then await env AwaitReadFile s2 else (Value (), s2)) (\<lambda>_ s3.
       if session = None
       then (Return, postClientMessage (DisplayShare False) (outputId message) False s3)
       else
         andThen (await env AwaitSave s3) (\<lambda>_ s4.
         andThen (await env AwaitGetPlainCache s4) (\<lambda>_ s5.
         andThen (await env AwaitGetMaskedCache s5) (\<lambda>_ s6.
         andThen (if isReporterEnabled env
                  then submitReporter env message s6
                  else submitLegacy env message s6) (\<lambda>d s7.
           (Return,
            postClientMessage (FetchResult d) (outputId message) False
              (emit (SendTelemetryEvent ''app.save'') s7)))))))))"

subsection \<open>Lines 60 to 395: one run\<close>

text \<open>
  The \<^verbatim>\<open>catch\<close> of line 381 reads the message of what was thrown; on a bare
  \<^verbatim>\<open>undefined\<close> that read itself fails and nothing is posted.
\<close>

definition catchError :: "Message \<Rightarrow> 'a Outcome \<times> Runtime \<Rightarrow> Runtime" where
  "catchError message r =
     (case fst r of
        Throw (Error m) \<Rightarrow>
          postClientMessage (Message m) (outputId message) True
            (emit (SendTelemetryEvent ''app.error'') (snd r))
      | _ \<Rightarrow> snd r)"

definition saveCellExecution :: "Env \<Rightarrow> Message \<Rightarrow> Runtime \<Rightarrow> Runtime" where
  "saveCellExecution env message s =
     (let tok = fst (beginRun s);
          s1 = snd (beginRun s)
      in endRun tok
           (catchError message
              (andThen (resolveSession env message tok s1) (collectAndSubmit env message))))"

text \<open>The effects of one run alone: the run started on an empty trace.\<close>

definition trace :: "Env \<Rightarrow> Message \<Rightarrow> Runtime \<Rightarrow> Effect list" where
  "trace env message s = effects (saveCellExecution env message (s\<lparr>effects := []\<rparr>))"

text \<open>What the authentication gate of that run yields, and the state it leaves.\<close>

definition authenticationGate :: "Env \<Rightarrow> Message \<Rightarrow> Runtime \<Rightarrow> Session option Outcome \<times> Runtime" where
  "authenticationGate env message s =
     resolveSession env message (fst (beginRun (s\<lparr>effects := []\<rparr>)))
       (snd (beginRun (s\<lparr>effects := []\<rparr>)))"

subsection \<open>Reading a trace\<close>

fun replyOf :: "Effect \<Rightarrow> ApiResponse list" where
  "replyOf (PostClientMessage r) = [r]"
| "replyOf _ = []"

fun mutationOf :: "Effect \<Rightarrow> Mutation list" where
  "mutationOf (GraphMutate m) = [m]"
| "mutationOf _ = []"

fun warningOf :: "Effect \<Rightarrow> string list" where
  "warningOf (ShowWarningMessage w) = [w]"
| "warningOf _ = []"

fun suspensionOf :: "Effect \<Rightarrow> Step list" where
  "suspensionOf (Suspend step) = [step]"
| "suspensionOf _ = []"

definition replies :: "Effect list \<Rightarrow> ApiResponse list" where
  "replies es = concat (map replyOf es)"

definition mutations :: "Effect list \<Rightarrow> Mutation list" where
  "mutations es = concat (map mutationOf es)"

definition warnings :: "Effect list \<Rightarrow> string list" where
  "warnings es = concat (map warningOf es)"

definition suspensions :: "Effect list \<Rightarrow> Step list" where
  "suspensions es = concat (map suspensionOf es)"

fun submittedHostname :: "Mutation \<Rightarrow> string" where
  "submittedHostname (CreateExtensionCellOutput input) = r_hostname input"
| "submittedHostname (CreateCellExecution input) = l_hostname input"

text \<open>
  The token source a run is about to create is new: no earlier cancellation names it
  and the slot does not hold it.
\<close>

definition newCts :: "Runtime \<Rightarrow> bool" where
  "newCts s = (ctsCount s \<notin> set (cancelled s) \<and> currentCts s \<noteq> Some (ctsCount s))"


text \<open>The slot holds a token source created no earlier than the one numbered \<open>k\<close>.\<close>

definition slotAtLeast :: "nat \<Rightarrow> Runtime \<Rightarrow> bool" where
  "slotAtLeast k s =
     (case currentCts s of None \<Rightarrow> False | Some t \<Rightarrow> k \<le> t \<and> t < ctsCount s)"

subsection \<open>Concrete inputs\<close>

definition runtime0 :: Runtime where
  "runtime0 =
     \<lparr> currentCts = None, ctsCount = 0, cancelled = [], disposed = [], listeners = [],
       effects = [] \<rparr>"

definition message0 :: Message where
  "message0 = \<lparr> outputId = ''cell-1'', isUserAction = False, stdout = ''hi'' \<rparr>"

definition cell0 :: ReporterCell where
  "cell0 =
     \<lparr> metadataId = ''cell-1'', cellValue = ''echo hi'',
       outputs = Some [\<lparr> items = Some [\<lparr> mime = ''stateful.runme/stdout'', itemData = [104, 105] \<rparr>,
                                        \<lparr> mime = ''text/html'', itemData = [60] \<rparr>],
                         outputMetadata = [] \<rparr>] \<rparr>"

definition notebook0 :: Notebook where
  "notebook0 = \<lparr> cells = [cell0], frontmatterRunmeId = Some ''nb-1'' \<rparr>"

definition liveCell0 :: NotebookCell where
  "liveCell0 = \<lparr> runmeId = ''r-1'', documentText = ''echo hi'', languageId = ''sh'' \<rparr>"

definition terminal0 :: Terminal where
  "terminal0 =
     \<lparr> processId = None,
       runnerSession = Some \<lparr> hasExited = Some \<lparr> statusType = ''exit'', code = 3 \<rparr> \<rparr> \<rparr>"

definition duringCurrentSession :: "Step \<Rightarrow> bool" where
  "duringCurrentSession step = (step = AwaitCurrentSession)"

definition duringOpenCloudPanel :: "Step \<Rightarrow> bool" where
  "duringOpenCloudPanel step = (step = AwaitOpenCloudPanel)"


text \<open>A signed-in, undisturbed legacy run on a machine called dev-box.\<close>

definition env0 :: Env where
  "env0 =
     \<lparr> isReporterEnabled = False, autoSaveIsOn = True, forceLogin = False,
       currentSession = Some ''token'', newSession = None, race = TimedOut False,
       rejects = (\<lambda>_. None), newerRunStarts = (\<lambda>_. False),
       fsPath = ''/work/notes.md'',
       gitCtx = \<lparr> repository = Some ''repo'', branch = Some ''main'', commit = Some ''abc'',
                  relativePath = ''docs/'' \<rparr>,
       fileBytes = [35, 32, 104, 105], cacheId = ''cache-1'',
       plainCache = None, maskedCache = None,
       osHostname = ''dev-box'', K_SERVICE = Some ''svc-7'',
       stdoutMime = Some ''stateful.runme/stdout'',
       getNotebookDataCache = (\<lambda>k. if k = ''cache-1'' then Some notebook0 else None),
       getCellById = (\<lambda>i. if i = ''cell-1'' then Some liveCell0 else None),
       getTerminal = (\<lambda>r. if r = ''r-1'' then Some terminal0 else None),
       mutateResult = ''ok'' \<rparr>"

section \<open>Reading traces through the state transformers\<close>

lemma trace_Nil [simp]:
  "replies [] = []" "mutations [] = []" "warnings [] = []" "suspensions [] = []"
  by (simp_all add: replies_def mutations_def warnings_def suspensions_def)

lemma trace_Cons [simp]:
  "replies (e # es) = replyOf e @ replies es"
  "mutations (e # es) = mutationOf e @ mutations es"
  "warnings (e # es) = warningOf e @ warnings es"
  "suspensions (e # es) = suspensionOf e @ suspensions es"
  by (simp_all add: replies_def mutations_def warnings_def suspensions_def)

lemma trace_append [simp]:
  "replies (xs @ ys) = replies xs @ replies ys"
  "mutations (xs @ ys) = mutations xs @ mutations ys"
  "warnings (xs @ ys) = warnings xs @ warnings ys"
  "suspensions (xs @ ys) = suspensions xs @ suspensions ys"
  by (simp_all add: replies_def mutations_def warnings_def suspensions_def)

lemma emit_fields [simp]:
  "effects (emit e s) = effects s @ [e]"
  "currentCts (emit e s) = currentCts s"
  "ctsCount (emit e s) = ctsCount s"
  "cancelled (emit e s) = cancelled s"
  "disposed (emit e s) = disposed s"
  "listeners (emit e s) = listeners s"
  by (simp_all add: emit_def)

lemma beginRun_fst [simp]: "fst (beginRun s) = ctsCount s"
  by (simp add: beginRun_def ctsCancel_def Let_def split: option.splits)

lemma beginRun_current [simp]: "currentCts (snd (beginRun s)) = Some (ctsCount s)"
  by (simp add: beginRun_def ctsCancel_def Let_def split: option.splits)

lemma beginRun_frame [simp]:
  "replies (effects (snd (beginRun s))) = replies (effects s)"
  "mutations (effects (snd (beginRun s))) = mutations (effects s)"
  "warnings (effects (snd (beginRun s))) = warnings (effects s)"
  "suspensions (effects (snd (beginRun s))) = suspensions (effects s)"
  "listeners (snd (beginRun s)) = listeners s"
  by (simp_all add: beginRun_def ctsCancel_def Let_def split: option.splits)

lemma endRun_frame [simp]:
  "replies (effects (endRun tok s)) = replies (effects s)"
  "mutations (effects (endRun tok s)) = mutations (effects s)"
  "warnings (effects (endRun tok s)) = warnings (effects s)"
  "suspensions (effects (endRun tok s)) = suspensions (effects s)"
  "listeners (endRun tok s) = listeners s"
  "cancelled (endRun tok s) = cancelled s"
  by (simp_all add: endRun_def)

lemma suspend_frame [simp]:
  "replies (effects (suspend env step s)) = replies (effects s)"
  "mutations (effects (suspend env step s)) = mutations (effects s)"
  "warnings (effects (suspend env step s)) = warnings (effects s)"
  "suspensions (effects (suspend env step s)) = suspensions (effects s) @ [step]"
  "listeners (suspend env step s) = listeners s"
  by (simp_all add: suspend_def otherRuns_def)

lemma postClientMessage_frame [simp]:
  "replies (effects (postClientMessage d i h s)) = replies (effects s) @ [ApiResponse d i h]"
  "mutations (effects (postClientMessage d i h s)) = mutations (effects s)"
  "warnings (effects (postClientMessage d i h s)) = warnings (effects s)"
  "suspensions (effects (postClientMessage d i h s)) = suspensions (effects s)"
  "listeners (postClientMessage d i h s) = listeners s"
  "currentCts (postClientMessage d i h s) = currentCts s"
  "cancelled (postClientMessage d i h s) = cancelled s"
  by (simp_all add: postClientMessage_def)

lemma listener_frame [simp]:
  "replies (effects (addListener cb s)) = replies (effects s)"
  "mutations (effects (addListener cb s)) = mutations (effects s)"
  "warnings (effects (addListener cb s)) = warnings (effects s)"
  "suspensions (effects (addListener cb s)) = suspensions (effects s)"
  "cancelled (addListener cb s) = cancelled s"
  "currentCts (addListener cb s) = currentCts s"
  "replies (effects (removeListener cb s)) = replies (effects s)"
  "mutations (effects (removeListener cb s)) = mutations (effects s)"
  "warnings (effects (removeListener cb s)) = warnings (effects s)"
  "suspensions (effects (removeListener cb s)) = suspensions (effects s)"
  "cancelled (removeListener cb s) = cancelled s"
  "currentCts (removeListener cb s) = currentCts s"
  by (simp_all add: addListener_def removeListener_def)

lemma authRace_frame [simp]:
  "replies (effects (snd (authRace env tok s))) = replies (effects s)"
  "mutations (effects (snd (authRace env tok s))) = mutations (effects s)"
  "warnings (effects (snd (authRace env tok s))) = warnings (effects s)"
  by (simp_all add: authRace_def Let_def split: RaceOutcome.splits)

lemma isCancellationRequested_frame [simp]:
  "isCancellationRequested tok (emit e s) = isCancellationRequested tok s"
  "isCancellationRequested tok (addListener cb s) = isCancellationRequested tok s"
  "isCancellationRequested tok (removeListener cb s) = isCancellationRequested tok s"
  "isCancellationRequested tok (postClientMessage d i h s) = isCancellationRequested tok s"
  by (simp_all add: isCancellationRequested_def)

lemma suspend_quiet:
  "\<not> newerRunStarts env step \<Longrightarrow> suspend env step s = emit (Suspend step) s"
  by (simp add: suspend_def otherRuns_def)

lemma newCts_reset [simp]: "newCts (s\<lparr>effects := []\<rparr>) = newCts s"
  by (simp add: newCts_def)

lemma beginRun_not_cancelled:
  "newCts s \<Longrightarrow> \<not> isCancellationRequested (ctsCount s) (snd (beginRun s))"
  by (auto simp add: newCts_def isCancellationRequested_def beginRun_def ctsCancel_def Let_def
      split: option.splits)

lemma reset_begin [simp]:
  "mutations (effects (snd (beginRun (s\<lparr>effects := []\<rparr>)))) = []"
  "replies (effects (snd (beginRun (s\<lparr>effects := []\<rparr>)))) = []"
  "warnings (effects (snd (beginRun (s\<lparr>effects := []\<rparr>)))) = []"
  "suspensions (effects (snd (beginRun (s\<lparr>effects := []\<rparr>)))) = []"
  by simp_all

section \<open>The stages of a run\<close>

lemma andThen_alt:
  "andThen r f =
     (case fst r of Value v \<Rightarrow> f v (snd r) | Return \<Rightarrow> (Return, snd r) | Throw e \<Rightarrow> (Throw e, snd r))"
  by (cases r) (simp add: andThen_def split: Outcome.splits)

lemma await_parts [simp]:
  "fst (await env step s) = (case rejects env step of Some m \<Rightarrow> Throw (Error m) | None \<Rightarrow> Value ())"
  "snd (await env step s) = suspend env step s"
  by (simp_all add: await_def)

lemma mutate_parts [simp]:
  "fst (mutate env m s) =
     (case rejects env AwaitMutate of Some e \<Rightarrow> Throw (Error e) | None \<Rightarrow> Value (mutateResult env))"
  "snd (mutate env m s) = suspend env AwaitMutate (emit (GraphMutate m) s)"
  by (simp_all add: mutate_def andThen_alt split: option.splits)

lemma interactiveLogin_mutations [simp]:
  "mutations (effects (snd (interactiveLogin env message tok s))) = mutations (effects s)"
  by (simp add: interactiveLogin_def andThen_def await_def Let_def split: option.splits)

lemma resolveSession_mutations [simp]:
  "mutations (effects (snd (resolveSession env message tok s))) = mutations (effects s)"
  by (simp add: resolveSession_def andThen_def await_def Let_def split: option.splits)

lemma interactiveLogin_Value:
  "fst (interactiveLogin env message tok s) = Value v \<Longrightarrow>
     replies (effects (snd (interactiveLogin env message tok s))) = replies (effects s)"
  by (simp add: interactiveLogin_def andThen_def await_def Let_def split: option.splits if_splits)

lemma resolveSession_Value:
  "fst (resolveSession env message tok s) = Value v \<Longrightarrow>
     replies (effects (snd (resolveSession env message tok s))) = replies (effects s)"
  by (auto simp add: resolveSession_def andThen_def await_def Let_def interactiveLogin_Value
      split: option.splits if_splits)

lemma catchError_frame [simp]:
  "mutations (effects (catchError message r)) = mutations (effects (snd r))"
  "warnings (effects (catchError message r)) = warnings (effects (snd r))"
  "listeners (catchError message r) = listeners (snd r)"
  by (simp_all add: catchError_def split: Outcome.splits Thrown.splits)

lemma catchError_replies [simp]:
  "replies (effects (catchError message r)) =
     replies (effects (snd r)) @
       (case fst r of Throw (Error text) \<Rightarrow> [ApiResponse (Message text) (outputId message) True]
        | _ \<Rightarrow> [])"
  by (simp add: catchError_def split: Outcome.splits Thrown.splits)

lemma run_via_gate:
  "trace env message s =
     effects (endRun (ctsCount s)
       (catchError message (andThen (authenticationGate env message s) (collectAndSubmit env message))))"
  by (simp add: trace_def saveCellExecution_def authenticationGate_def Let_def)

lemma gate_frame [simp]:
  "mutations (effects (snd (authenticationGate env message s))) = []"
  by (simp add: authenticationGate_def)

lemma gate_Value:
  "fst (authenticationGate env message s) = Value v \<Longrightarrow> replies (effects (snd (authenticationGate env message s))) = []"
  using resolveSession_Value [of env message "ctsCount s" "snd (beginRun (s\<lparr>effects := []\<rparr>))" v]
  by (simp add: authenticationGate_def)

lemma gate_current:
  "currentSession env = Some session \<Longrightarrow> rejects env AwaitCurrentSession = None \<Longrightarrow>
     fst (authenticationGate env message s) = Value (Some session)"
  by (simp add: authenticationGate_def resolveSession_def andThen_alt)


text \<open>
  What the part of the body after the authentication gate submits, and what a whole run
  submits.
\<close>

lemma collectAndSubmit_mutations:
  "mutations (effects (snd (collectAndSubmit env message session s))) = mutations (effects s)
   \<or> (isReporterEnabled env \<and> (\<exists>notebook cell.
        findReporterCell env message = Inr (notebook, cell) \<and>
        mutations (effects (snd (collectAndSubmit env message session s))) =
          mutations (effects s) @ [CreateExtensionCellOutput (reporterInput env notebook cell)]))
   \<or> (\<not> isReporterEnabled env \<and> (\<exists>cell terminal.
        findLegacyCell env message = Inr (cell, terminal) \<and>
        mutations (effects (snd (collectAndSubmit env message session s))) =
          mutations (effects s) @ [CreateCellExecution (legacyInput env message cell terminal)]))"
  by (simp add: collectAndSubmit_def submitReporter_def submitLegacy_def andThen_alt
      split: option.splits sum.splits prod.splits)

lemma run_mutations:
  "mutations (trace env message s) = []
   \<or> (isReporterEnabled env \<and> (\<exists>notebook cell.
        findReporterCell env message = Inr (notebook, cell) \<and>
        mutations (trace env message s) =
          [CreateExtensionCellOutput (reporterInput env notebook cell)]))
   \<or> (\<not> isReporterEnabled env \<and> (\<exists>cell terminal.
        findLegacyCell env message = Inr (cell, terminal) \<and>
        mutations (trace env message s) =
          [CreateCellExecution (legacyInput env message cell terminal)]))"
proof -
  define r where "r = resolveSession env message (ctsCount s) (snd (beginRun (s\<lparr>effects := []\<rparr>)))"
  have m0: "mutations (effects (snd r)) = []"
    by (simp add: r_def)
  have run: "mutations (trace env message s) =
      mutations (effects (snd (andThen r (collectAndSubmit env message))))"
    by (simp add: trace_def saveCellExecution_def Let_def r_def)
  show ?thesis
  proof (cases "fst r")
    case (Value session)
    then have "snd (andThen r (collectAndSubmit env message)) =
        snd (collectAndSubmit env message session (snd r))"
      by (simp add: andThen_alt)
    with run collectAndSubmit_mutations [of env message session "snd r"] m0
    show ?thesis by simp
  next
    case Return
    with run m0 show ?thesis by (simp add: andThen_alt)
  next
    case (Throw e)
    with run m0 show ?thesis by (simp add: andThen_alt)
  qed
qed

text \<open>
  A run whose authentication gate yields a session and whose collaborators do not reject
  submits and replies with the remote result; the token is not consulted on the way.
\<close>

lemma legacy_run:
  assumes "fst (authenticationGate env message s) = Value (Some session)"
    and "rejects env = (\<lambda>_. None)"
    and "\<not> isReporterEnabled env"
    and "findLegacyCell env message = Inr (cell, terminal)"
  shows "mutations (trace env message s) = [CreateCellExecution (legacyInput env message cell terminal)]"
    and "replies (trace env message s) = [ApiResponse (FetchResult (mutateResult env)) (outputId message) False]"
  using assms gate_Value [OF assms(1)]
  by (simp_all add: run_via_gate andThen_alt collectAndSubmit_def submitLegacy_def)

lemma reporter_run:
  assumes "fst (authenticationGate env message s) = Value (Some session)"
    and "rejects env = (\<lambda>_. None)"
    and "isReporterEnabled env"
    and "findReporterCell env message = Inr (notebook, cell)"
  shows "mutations (trace env message s) =
      [CreateExtensionCellOutput (reporterInput env notebook cell)]"
    and "replies (trace env message s) = [ApiResponse (FetchResult (mutateResult env)) (outputId message) False]"
  using assms gate_Value [OF assms(1)]
  by (simp_all add: run_via_gate andThen_alt collectAndSubmit_def submitReporter_def)

text \<open>
  Effects are only ever appended: a run's trace starts with what its head did.
\<close>

lemma emit_keeps [simp]: "prefix xs (effects s) \<Longrightarrow> prefix xs (effects (emit e s))"
  by simp

lemma guard_keeps [simp]:
  "prefix xs (effects s) \<Longrightarrow> prefix xs (effects (snd (beginRun s)))"
  "prefix xs (effects s) \<Longrightarrow> prefix xs (effects (endRun tok s))"
  by (simp_all add: beginRun_def endRun_def ctsCancel_def Let_def split: option.splits)

lemma basic_keeps [simp]:
  "prefix xs (effects s) \<Longrightarrow> prefix xs (effects (suspend env step s))"
  "prefix xs (effects s) \<Longrightarrow> prefix xs (effects (addListener cb s))"
  "prefix xs (effects s) \<Longrightarrow> prefix xs (effects (removeListener cb s))"
  "prefix xs (effects s) \<Longrightarrow> prefix xs (effects (postClientMessage d i h s))"
  by (simp_all add: suspend_def otherRuns_def addListener_def removeListener_def postClientMessage_def)

lemma authRace_keeps [simp]:
  "prefix xs (effects s) \<Longrightarrow> prefix xs (effects (snd (authRace env tok s)))"
  by (simp add: authRace_def Let_def split: RaceOutcome.splits)

lemma interactiveLogin_keeps [simp]:
  "prefix xs (effects s) \<Longrightarrow> prefix xs (effects (snd (interactiveLogin env message tok s)))"
  by (simp add: interactiveLogin_def andThen_alt Let_def split: option.splits)

lemma resolveSession_keeps [simp]:
  "prefix xs (effects s) \<Longrightarrow> prefix xs (effects (snd (resolveSession env message tok s)))"
  by (simp add: resolveSession_def andThen_alt Let_def split: option.splits)

lemma collectAndSubmit_keeps [simp]:
  "prefix xs (effects s) \<Longrightarrow> prefix xs (effects (snd (collectAndSubmit env message session s)))"
  by (simp add: collectAndSubmit_def submitReporter_def submitLegacy_def andThen_alt
      split: option.splits sum.splits prod.splits)

lemma catchError_keeps [simp]:
  "prefix xs (effects (snd r)) \<Longrightarrow> prefix xs (effects (catchError message r))"
  by (simp add: catchError_def split: Outcome.splits Thrown.splits)

lemma andThen_keeps:
  "prefix xs (effects (snd r)) \<Longrightarrow> (\<And>v s. prefix xs (effects s) \<Longrightarrow> prefix xs (effects (snd (f v s)))) \<Longrightarrow>
     prefix xs (effects (snd (andThen r f)))"
  by (simp add: andThen_alt split: Outcome.splits)

lemma run_starts_with_head:
  "prefix (effects (snd (beginRun (s\<lparr>effects := []\<rparr>)))) (trace env message s)"
  unfolding run_via_gate authenticationGate_def
  by (intro guard_keeps(2) catchError_keeps andThen_keeps resolveSession_keeps collectAndSubmit_keeps) simp_all

text \<open>
  Once a newer run has started, this run's token is cancelled and stays so.
\<close>

lemma beginRun_cancels:
  "currentCts s = Some tok \<or> isCancellationRequested tok s \<Longrightarrow>
     isCancellationRequested tok (snd (beginRun s))"
  by (auto simp add: beginRun_def ctsCancel_def Let_def isCancellationRequested_def
      split: option.splits)

lemma suspend_owner:
  "currentCts s = Some tok \<or> isCancellationRequested tok s \<Longrightarrow>
     currentCts (suspend env step s) = Some tok \<or> isCancellationRequested tok (suspend env step s)"
  using beginRun_cancels [of "emit (Suspend step) s" tok]
  by (auto simp add: suspend_def otherRuns_def)

lemma suspend_cancels:
  "currentCts s = Some tok \<or> isCancellationRequested tok s \<Longrightarrow> newerRunStarts env step \<Longrightarrow>
     isCancellationRequested tok (suspend env step s)"
  using beginRun_cancels [of "emit (Suspend step) s" tok]
  by (auto simp add: suspend_def otherRuns_def)

lemma suspend_stays_cancelled:
  "isCancellationRequested tok s \<Longrightarrow> isCancellationRequested tok (suspend env step s)"
  using beginRun_cancels [of "emit (Suspend step) s" tok]
  by (auto simp add: suspend_def otherRuns_def)

lemma interactiveLogin_silent:
  assumes quiet: "rejects env AwaitOpenCloudPanel = None"
    and owner: "currentCts s = Some tok \<or> isCancellationRequested tok s"
    and stale: "isCancellationRequested tok s \<or> newerRunStarts env AwaitOpenCloudPanel
      \<or> (\<exists>cb. race env = Superseded cb)"
  shows "fst (interactiveLogin env message tok s) = Return
       \<and> replies (effects (snd (interactiveLogin env message tok s))) = replies (effects s)
       \<and> warnings (effects (snd (interactiveLogin env message tok s))) = warnings (effects s)"
proof -
  define s2 where
    "s2 = addListener tok (suspend env AwaitOpenCloudPanel (emit (ExecuteCommand ''runme.openCloudPanel'') s))"
  have frame2: "replies (effects s2) = replies (effects s)" "warnings (effects s2) = warnings (effects s)"
    by (simp_all add: s2_def)
  have owner2: "currentCts s2 = Some tok \<or> isCancellationRequested tok s2"
    using suspend_owner [of "emit (ExecuteCommand ''runme.openCloudPanel'') s" tok env AwaitOpenCloudPanel]
      owner
    by (simp add: s2_def)
  show ?thesis
  proof (cases "isCancellationRequested tok s2")
    case True
    then show ?thesis
      using quiet frame2 by (simp add: interactiveLogin_def andThen_alt Let_def s2_def)
  next
    case False
    have "\<not> isCancellationRequested tok s"
      using False suspend_stays_cancelled [of tok "emit (ExecuteCommand ''runme.openCloudPanel'') s" env AwaitOpenCloudPanel]
      by (auto simp add: s2_def)
    moreover have "\<not> newerRunStarts env AwaitOpenCloudPanel"
      using False owner
        suspend_cancels [of "emit (ExecuteCommand ''runme.openCloudPanel'') s" tok env AwaitOpenCloudPanel]
      by (auto simp add: s2_def)
    ultimately obtain cb where superseded: "race env = Superseded cb"
      using stale by auto
    have own: "currentCts s2 = Some tok"
      using False owner2 by simp
    have "isCancellationRequested tok (snd (authRace env tok s2))"
      using superseded own
        beginRun_cancels [of "if cb then removeListener tok (emit (Suspend AwaitAuthRace) s2) else emit (Suspend AwaitAuthRace) s2" tok]
      by (simp add: authRace_def Let_def)
    then show ?thesis
      using False quiet frame2 by (simp add: interactiveLogin_def andThen_alt Let_def s2_def)
  qed
qed

text \<open>
  The slot over a run: a newer run only ever installs a later token source.
\<close>

lemma slot_fields [simp]:
  "ctsCount (snd (beginRun s)) = Suc (ctsCount s)"
  "ctsCount (addListener cb s) = ctsCount s"
  "ctsCount (removeListener cb s) = ctsCount s"
  "ctsCount (postClientMessage d i h s) = ctsCount s"
  by (simp_all add: beginRun_def ctsCancel_def Let_def addListener_def removeListener_def
      postClientMessage_def split: option.splits)

lemma slotAtLeast_frame [simp]:
  "slotAtLeast k (emit e s) = slotAtLeast k s"
  "slotAtLeast k (addListener cb s) = slotAtLeast k s"
  "slotAtLeast k (removeListener cb s) = slotAtLeast k s"
  "slotAtLeast k (postClientMessage d i h s) = slotAtLeast k s"
  by (simp_all add: slotAtLeast_def split: option.splits)

lemma beginRun_slot_own [simp]: "slotAtLeast (ctsCount s) (snd (beginRun s))"
  by (simp add: slotAtLeast_def)

lemma beginRun_slot [simp]: "slotAtLeast k s \<Longrightarrow> slotAtLeast k (snd (beginRun s))"
  by (auto simp add: slotAtLeast_def split: option.splits)


lemma suspend_slot [simp]: "slotAtLeast k s \<Longrightarrow> slotAtLeast k (suspend env step s)"
  by (simp add: suspend_def otherRuns_def)


lemma authRace_slot [simp]: "slotAtLeast k s \<Longrightarrow> slotAtLeast k (snd (authRace env tok s))"
  by (simp add: authRace_def Let_def split: RaceOutcome.splits)

lemma interactiveLogin_slot [simp]:
  "slotAtLeast k s \<Longrightarrow> slotAtLeast k (snd (interactiveLogin env message tok s))"
  by (simp add: interactiveLogin_def andThen_alt Let_def split: option.splits)

lemma resolveSession_slot [simp]:
  "slotAtLeast k s \<Longrightarrow> slotAtLeast k (snd (resolveSession env message tok s))"
  by (simp add: resolveSession_def andThen_alt Let_def split: option.splits)










lemma catchError_current [simp]: "currentCts (catchError message r) = currentCts (snd r)"
  by (simp add: catchError_def split: Outcome.splits Thrown.splits)



subsection \<open>Concrete runs\<close>

lemma found0:
  "findLegacyCell (env0\<lparr>osHostname := h, K_SERVICE := k\<rparr>) message0 = Inr (liveCell0, terminal0)"
  "findLegacyCell env0 message0 = Inr (liveCell0, terminal0)"
  "findReporterCell (env0\<lparr>isReporterEnabled := True\<rparr>) message0 = Inr (notebook0, cell0)"
  by (simp_all add: findLegacyCell_def findReporterCell_def env0_def message0_def liveCell0_def
      notebook0_def cell0_def)

lemma trace0:
  "trace env0 message0 runtime0 =
     [CtsNew 0, Suspend AwaitCurrentSession, Suspend AwaitInitializeCloudClient,
      Suspend AwaitGetGitContext, Suspend AwaitReadFile, Suspend AwaitSave,
      Suspend AwaitGetPlainCache, Suspend AwaitGetMaskedCache,
      Suspend AwaitGetCellById, Suspend AwaitProcessId,
      GraphMutate (CreateCellExecution (legacyInput env0 message0 liveCell0 terminal0)),
      Suspend AwaitMutate, SendTelemetryEvent ''app.save'',
      PostClientMessage (ApiResponse (FetchResult ''ok'') ''cell-1'' False),
      CtsDispose 0]"
  by (simp add: trace_def saveCellExecution_def env0_def message0_def runtime0_def beginRun_def
      endRun_def catchError_def andThen_alt resolveSession_def collectAndSubmit_def suspend_def
      otherRuns_def emit_def postClientMessage_def submitLegacy_def findLegacyCell_def liveCell0_def)

lemma trace0_reporter:
  "trace (env0\<lparr>isReporterEnabled := True\<rparr>) message0 runtime0 =
     [CtsNew 0, Suspend AwaitCurrentSession, Suspend AwaitInitializeCloudClient,
      Suspend AwaitGetGitContext, Suspend AwaitReadFile, Suspend AwaitSave,
      Suspend AwaitGetPlainCache, Suspend AwaitGetMaskedCache,
      GraphMutate (CreateExtensionCellOutput
        (reporterInput (env0\<lparr>isReporterEnabled := True\<rparr>) notebook0 cell0)),
      Suspend AwaitMutate, SendTelemetryEvent ''app.save'',
      PostClientMessage (ApiResponse (FetchResult ''ok'') ''cell-1'' False),
      CtsDispose 0]"
  by (simp add: trace_def saveCellExecution_def env0_def message0_def runtime0_def beginRun_def
      endRun_def catchError_def andThen_alt resolveSession_def collectAndSubmit_def suspend_def
      otherRuns_def emit_def postClientMessage_def submitReporter_def findReporterCell_def
      notebook0_def cell0_def)

subsection \<open>When the lookups fail\<close>

lemma findReporterCell_fails:
  "(\<exists>e. findReporterCell env message = Inl e) \<longleftrightarrow>
     (case getNotebookDataCache env (cacheId env) of
        None \<Rightarrow> True
      | Some notebook \<Rightarrow> find (\<lambda>c. metadataId c = outputId message) (cells notebook) = None)"
  by (simp add: findReporterCell_def split: option.splits)

lemma findLegacyCell_fails:
  "(\<exists>e. findLegacyCell env message = Inl e) \<longleftrightarrow>
     (case getCellById env (outputId message) of
        None \<Rightarrow> True
      | Some cell \<Rightarrow> getTerminal env (runmeId cell) = None)"
  by (simp add: findLegacyCell_def split: option.splits)

subsection \<open>The payload fields of the legacy mutation\<close>

lemma legacyInput_exitCode:
  "l_exitCode (legacyInput env message cell terminal) =
     (case runnerExitStatusOf terminal of
        None \<Rightarrow> 0
      | Some status \<Rightarrow>
          if statusType status = ''exit'' then code status
          else if statusType status = ''error'' then 1 else 0)"
  by (simp add: legacyInput_def exitCodeOf_def split: option.splits)

lemma legacyInput_pid:
  "processId terminal = None \<Longrightarrow> l_pid (legacyInput env message cell terminal) = 0"
  by (simp add: legacyInput_def pidOf_def)

section \<open>The claims\<close>

subsection \<open>C1: silent cancellation\<close>

text \<open>
  C1, as amended.  The token is consulted at two places only, both inside the interactive
  login: after the listener is registered (line 98) and when the race has ended (line 116).
  A run that enters the interactive login (no session after the first two steps of the
  authentication gate, a user action, no collaborator rejecting on the way) and whose
  token is cancelled by the time of either check, because a newer run started during one
  of the awaits before the listener is registered or during the race, posts no reply,
  submits no mutation and shows no warning.
\<close>

theorem silent_cancel:
  assumes absent: "currentSession env = None"
    and forced: "forceLogin env \<longrightarrow> newSession env = None \<and> rejects env AwaitNewSession = None"
    and user: "isUserAction message"
    and quiet: "rejects env AwaitCurrentSession = None" "rejects env AwaitOpenCloudPanel = None"
    and stale: "newerRunStarts env AwaitCurrentSession
      \<or> (forceLogin env \<and> newerRunStarts env AwaitNewSession)
      \<or> newerRunStarts env AwaitOpenCloudPanel
      \<or> (\<exists>cb. race env = Superseded cb)"
  shows "replies (trace env message s) = [] \<and> mutations (trace env message s) = []
       \<and> warnings (trace env message s) = []"
proof -
  let ?tok = "ctsCount s"
  define s1 where "s1 = suspend env AwaitCurrentSession (snd (beginRun (s\<lparr>effects := []\<rparr>)))"
  define s3 where "s3 = (if forceLogin env then suspend env AwaitNewSession s1 else s1)"
  have owner1: "currentCts s1 = Some ?tok \<or> isCancellationRequested ?tok s1"
    using suspend_owner [of "snd (beginRun (s\<lparr>effects := []\<rparr>))" ?tok env AwaitCurrentSession]
    by (simp add: s1_def)
  have owner3: "currentCts s3 = Some ?tok \<or> isCancellationRequested ?tok s3"
    using owner1 suspend_owner [of s1 ?tok env AwaitNewSession] by (simp add: s3_def)
  have first: "newerRunStarts env AwaitCurrentSession \<Longrightarrow> isCancellationRequested ?tok s1"
    using suspend_cancels [of "snd (beginRun (s\<lparr>effects := []\<rparr>))" ?tok env AwaitCurrentSession]
    by (simp add: s1_def)
  have stale3: "isCancellationRequested ?tok s3 \<or> newerRunStarts env AwaitOpenCloudPanel
      \<or> (\<exists>cb. race env = Superseded cb)"
    using stale first owner1 suspend_cancels [of s1 ?tok env AwaitNewSession]
      suspend_stays_cancelled [of ?tok s1 env AwaitNewSession]
    by (auto simp add: s3_def)
  have frame3: "replies (effects s3) = []" "warnings (effects s3) = []"
    by (simp_all add: s3_def s1_def)
  have gate_is: "authenticationGate env message s = interactiveLogin env message ?tok s3"
    using absent forced user quiet
    by (simp add: authenticationGate_def resolveSession_def andThen_alt s3_def s1_def)
  have "fst (authenticationGate env message s) = Return
      \<and> replies (effects (snd (authenticationGate env message s))) = []
      \<and> warnings (effects (snd (authenticationGate env message s))) = []"
    using interactiveLogin_silent [OF quiet(2) owner3 stale3, of message] frame3
    by (simp add: gate_is)
  then show ?thesis
    by (simp add: run_via_gate andThen_alt)
qed

theorem silent_cancel_witness:
  "currentSession (env0\<lparr>currentSession := None, race := Superseded False\<rparr>) = None
   \<and> isUserAction (message0\<lparr>isUserAction := True\<rparr>)
   \<and> race (env0\<lparr>currentSession := None, race := Superseded False\<rparr>) = Superseded False
   \<and> replies (trace (env0\<lparr>currentSession := None, race := Superseded False\<rparr>)
        (message0\<lparr>isUserAction := True\<rparr>) runtime0) = []
   \<and> mutations (trace (env0\<lparr>currentSession := None, race := Superseded False\<rparr>)
        (message0\<lparr>isUserAction := True\<rparr>) runtime0) = []
   \<and> warnings (trace (env0\<lparr>currentSession := None, race := Superseded False\<rparr>)
        (message0\<lparr>isUserAction := True\<rparr>) runtime0) = []"
proof -
  let ?env = "env0\<lparr>currentSession := None, race := Superseded False\<rparr>"
  let ?message = "message0\<lparr>isUserAction := True\<rparr>"
  have stale: "newerRunStarts ?env AwaitCurrentSession
      \<or> (forceLogin ?env \<and> newerRunStarts ?env AwaitNewSession)
      \<or> newerRunStarts ?env AwaitOpenCloudPanel
      \<or> (\<exists>cb. race ?env = Superseded cb)"
    by (intro disjI2 exI [of _ False]) (simp add: env0_def)
  have "replies (trace ?env ?message runtime0) = [] \<and> mutations (trace ?env ?message runtime0) = []
      \<and> warnings (trace ?env ?message runtime0) = []"
    by (rule silent_cancel [OF _ _ _ _ _ stale]) (simp_all add: env0_def message0_def)
  then show ?thesis
    by (simp add: env0_def message0_def)
qed

text \<open>
  The claim as stated fails outside the interactive login.  A signed-in run whose token is
  cancelled during its first await (a newer run starts there) never looks at the token: it
  submits the mutation and posts the reply.
\<close>

theorem silent_cancel_counterexample:
  "trace (env0\<lparr>newerRunStarts := duringCurrentSession\<rparr>) message0 runtime0 =
     [CtsNew 0, Suspend AwaitCurrentSession, CtsCancel 0, CtsNew 1,
      Suspend AwaitInitializeCloudClient, Suspend AwaitGetGitContext, Suspend AwaitReadFile,
      Suspend AwaitSave, Suspend AwaitGetPlainCache, Suspend AwaitGetMaskedCache,
      Suspend AwaitGetCellById, Suspend AwaitProcessId,
      GraphMutate (CreateCellExecution
        (legacyInput (env0\<lparr>newerRunStarts := duringCurrentSession\<rparr>)
           message0 liveCell0 terminal0)),
      Suspend AwaitMutate, SendTelemetryEvent ''app.save'',
      PostClientMessage (ApiResponse (FetchResult ''ok'') ''cell-1'' False)]"
  by (simp add: trace_def saveCellExecution_def env0_def message0_def runtime0_def beginRun_def
      endRun_def catchError_def andThen_alt resolveSession_def collectAndSubmit_def suspend_def
      otherRuns_def emit_def postClientMessage_def submitLegacy_def findLegacyCell_def liveCell0_def
      ctsCancel_def Let_def duringCurrentSession_def)

subsection \<open>C2: the auth-state-change listener\<close>

text \<open>
  C2 does not hold of the code.  The listener is removed only by the callback itself
  (line 90), that is only when the auth-state-change event fires; the \<^verbatim>\<open>finally\<close>
  of the race disposes the run's own event emitter, not the listener.  On a timeout, on a
  cancellation during the race and on the early return of line 99 the listener is added
  and never removed; only when the event fires is it removed.
\<close>

theorem listener_leak_on_timeout:
  "trace (env0\<lparr>currentSession := None\<rparr>) (message0\<lparr>isUserAction := True\<rparr>) runtime0 =
     [CtsNew 0, Suspend AwaitCurrentSession, ExecuteCommand ''runme.openCloudPanel'',
      Suspend AwaitOpenCloudPanel, AddListener 0, Suspend AwaitAuthRace, EmitterDispose,
      PostClientMessage (ApiResponse (DisplayShare False) ''cell-1'' False),
      Suspend AwaitPostClientMessage,
      ShowWarningMessage ''Saving timed out. Sign in to save your cells. Please try again.'',
      CtsDispose 0]
   \<and> listeners (saveCellExecution (env0\<lparr>currentSession := None\<rparr>)
        (message0\<lparr>isUserAction := True\<rparr>) runtime0) = [0]
   \<and> listeners (saveCellExecution (env0\<lparr>currentSession := None, race := Superseded False\<rparr>)
        (message0\<lparr>isUserAction := True\<rparr>) runtime0) = [0]
   \<and> listeners (saveCellExecution
        (env0\<lparr>currentSession := None, newerRunStarts := duringOpenCloudPanel\<rparr>)
        (message0\<lparr>isUserAction := True\<rparr>) runtime0) = [0]
   \<and> listeners (saveCellExecution (env0\<lparr>currentSession := None, race := Resolved (Some ''fresh'')\<rparr>)
        (message0\<lparr>isUserAction := True\<rparr>) runtime0) = []"
  by (simp add: trace_def saveCellExecution_def env0_def message0_def runtime0_def beginRun_def
      endRun_def catchError_def andThen_alt resolveSession_def interactiveLogin_def
      collectAndSubmit_def suspend_def authRace_def isCancellationRequested_def
      otherRuns_def emit_def postClientMessage_def submitLegacy_def findLegacyCell_def liveCell0_def
      ctsCancel_def Let_def addListener_def removeListener_def timeoutWarning_def
      duringOpenCloudPanel_def)

subsection \<open>C3: no session, not a user action\<close>




subsection \<open>C4: the authentication timeout\<close>

text \<open>
  C4.  A run with no session after the first two steps of the authentication gate,
  triggered by the user, that reaches the race with its token live (its own token source is new, no
  collaborator rejects and no newer run starts on the way) and whose race ends by the timer
  with the authentication event never fired, posts exactly one reply,
  \<^verbatim>\<open>displayShare: false\<close> without \<^verbatim>\<open>hasErrors\<close>, shows the warning once and
  submits no mutation.
\<close>

theorem auth_timeout:
  assumes "currentSession env = None"
    and "forceLogin env \<longrightarrow>
           newSession env = None \<and> rejects env AwaitNewSession = None \<and> \<not> newerRunStarts env AwaitNewSession"
    and "isUserAction message"
    and "race env = TimedOut False"
    and "rejects env AwaitCurrentSession = None" and "rejects env AwaitOpenCloudPanel = None"
    and "\<not> newerRunStarts env AwaitCurrentSession" and "\<not> newerRunStarts env AwaitOpenCloudPanel"
    and "newCts s"
  shows "replies (trace env message s) = [ApiResponse (DisplayShare False) (outputId message) False]
       \<and> warnings (trace env message s) = [timeoutWarning]
       \<and> mutations (trace env message s) = []"
proof -
  let ?s0 = "s\<lparr>effects := []\<rparr>"
  have fresh: "\<not> isCancellationRequested (ctsCount s) (snd (beginRun ?s0))"
    using beginRun_not_cancelled [of ?s0] assms(9) by simp
  show ?thesis
    using assms(1-8) fresh
    by (cases "forceLogin env")
       (simp_all add: trace_def saveCellExecution_def resolveSession_def interactiveLogin_def
          andThen_alt suspend_quiet authRace_def Let_def catchError_def)
qed

theorem auth_timeout_witness:
  "currentSession (env0\<lparr>currentSession := None, forceLogin := True\<rparr>) = None
   \<and> forceLogin (env0\<lparr>currentSession := None, forceLogin := True\<rparr>)
   \<and> newSession (env0\<lparr>currentSession := None, forceLogin := True\<rparr>) = None
   \<and> isUserAction (message0\<lparr>isUserAction := True\<rparr>)
   \<and> race (env0\<lparr>currentSession := None, forceLogin := True\<rparr>) = TimedOut False
   \<and> newCts runtime0
   \<and> replies (trace (env0\<lparr>currentSession := None, forceLogin := True\<rparr>)
        (message0\<lparr>isUserAction := True\<rparr>) runtime0)
     = [ApiResponse (DisplayShare False) ''cell-1'' False]
   \<and> warnings (trace (env0\<lparr>currentSession := None, forceLogin := True\<rparr>)
        (message0\<lparr>isUserAction := True\<rparr>) runtime0)
     = [''Saving timed out. Sign in to save your cells. Please try again.'']
   \<and> mutations (trace (env0\<lparr>currentSession := None, forceLogin := True\<rparr>)
        (message0\<lparr>isUserAction := True\<rparr>) runtime0) = []"
  using auth_timeout [of "env0\<lparr>currentSession := None, forceLogin := True\<rparr>"
      "message0\<lparr>isUserAction := True\<rparr>" runtime0]
  by (simp add: env0_def message0_def runtime0_def newCts_def timeoutWarning_def)

subsection \<open>C5: redaction\<close>

text \<open>
  C5.  Every reporter mutation a run submits carries exactly one cell, the target cell of
  the cached notebook, and each of its outputs keeps, in order, exactly those items of the
  source output whose mime type is \<^verbatim>\<open>OutputType.stdout\<close>; every legacy
  mutation a run submits has the empty byte sequence as stderr.
\<close>

theorem redaction:
  "(\<forall>input. CreateExtensionCellOutput input \<in> set (mutations (trace env message s)) \<longrightarrow>
      (\<exists>notebook cell.
         findReporterCell env message = Inr (notebook, cell) \<and>
         length (r_cells input) = 1 \<and>
         map itemsOf (outputsOf (hd (r_cells input))) =
           map (\<lambda>output. filter (\<lambda>item. Some (mime item) = stdoutMime env) (itemsOf output))
             (outputsOf cell)))
   \<and> (\<forall>input. CreateCellExecution input \<in> set (mutations (trace env message s)) \<longrightarrow>
         l_stderr input = [])"
  using run_mutations [of env message s]
  by (auto simp add: reporterInput_def legacyInput_def redact_def outputsOf_def itemsOf_def comp_def)

theorem redaction_witness:
  "CreateExtensionCellOutput (reporterInput (env0\<lparr>isReporterEnabled := True\<rparr>) notebook0 cell0)
     \<in> set (mutations (trace (env0\<lparr>isReporterEnabled := True\<rparr>) message0 runtime0))
   \<and> map (map mime) (map itemsOf (outputsOf cell0)) = [[''stateful.runme/stdout'', ''text/html'']]
   \<and> map itemsOf (outputsOf (hd (r_cells
        (reporterInput (env0\<lparr>isReporterEnabled := True\<rparr>) notebook0 cell0)))) =
      [[\<lparr> mime = ''stateful.runme/stdout'', itemData = [104, 105] \<rparr>]]
   \<and> CreateCellExecution (legacyInput env0 message0 liveCell0 terminal0)
        \<in> set (mutations (trace env0 message0 runtime0))
   \<and> l_stderr (legacyInput env0 message0 liveCell0 terminal0) = []"
proof -
  let ?env = "env0\<lparr>isReporterEnabled := True\<rparr>"
  have mem: "CreateExtensionCellOutput (reporterInput ?env notebook0 cell0)
      \<in> set (mutations (trace ?env message0 runtime0))"
    by (simp add: trace0_reporter)
  have mem': "CreateCellExecution (legacyInput env0 message0 liveCell0 terminal0)
      \<in> set (mutations (trace env0 message0 runtime0))"
    by (simp add: trace0)
  from redaction [of ?env message0 runtime0] mem
  have "map itemsOf (outputsOf (hd (r_cells (reporterInput ?env notebook0 cell0)))) =
      map (\<lambda>output. filter (\<lambda>item. Some (mime item) = stdoutMime ?env) (itemsOf output)) (outputsOf cell0)"
    by (auto simp add: found0)
  moreover from redaction [of env0 message0 runtime0] mem'
  have "l_stderr (legacyInput env0 message0 liveCell0 terminal0) = []"
    by blast
  ultimately show ?thesis
    using mem mem' by (simp add: outputsOf_def itemsOf_def cell0_def env0_def)
qed

subsection \<open>C6: target not found\<close>

text \<open>
  C6.  A run whose authentication gate yields a session, whose collaborators up to the
  lookup do not reject, and whose lookup fails (the cached notebook or the target cell in
  it on the reporter path, the live cell or its terminal on the legacy path) posts exactly
  one reply, with \<^verbatim>\<open>hasErrors: true\<close> and the message of the error raised,
  and submits no mutation.
\<close>

theorem fatal_not_found:
  assumes session: "fst (authenticationGate env message s) = Value (Some session)"
    and quiet: "rejects env AwaitInitializeCloudClient = None" "rejects env AwaitGetGitContext = None"
      "rejects env AwaitReadFile = None" "rejects env AwaitSave = None"
      "rejects env AwaitGetPlainCache = None" "rejects env AwaitGetMaskedCache = None"
    and missing: "(isReporterEnabled env \<and> findReporterCell env message = Inl (Error text))
      \<or> (\<not> isReporterEnabled env \<and> rejects env AwaitGetCellById = None
           \<and> findLegacyCell env message = Inl (Error text))"
  shows "replies (trace env message s) = [ApiResponse (Message text) (outputId message) True]
       \<and> mutations (trace env message s) = []"
proof -
  let ?g = "authenticationGate env message s"
  have g: "replies (effects (snd ?g)) = []" "mutations (effects (snd ?g)) = []"
    using gate_Value [OF session] by simp_all
  have step: "andThen ?g (collectAndSubmit env message) =
      collectAndSubmit env message (Some session) (snd ?g)"
    using session by (simp add: andThen_alt)
  have thrown: "fst (collectAndSubmit env message (Some session) (snd ?g)) = Throw (Error text)"
    and kept: "replies (effects (snd (collectAndSubmit env message (Some session) (snd ?g)))) = []"
      "mutations (effects (snd (collectAndSubmit env message (Some session) (snd ?g)))) = []"
    using quiet missing g
    by (auto simp add: collectAndSubmit_def submitReporter_def submitLegacy_def andThen_alt)
  show ?thesis
    by (simp add: run_via_gate step thrown kept)
qed

theorem fatal_not_found_witness:
  "fst (authenticationGate (env0\<lparr>isReporterEnabled := True, cacheId := ''cache-2''\<rparr>) message0 runtime0)
     = Value (Some ''token'')
   \<and> findReporterCell (env0\<lparr>isReporterEnabled := True, cacheId := ''cache-2''\<rparr>) message0
     = Inl (Error ''Notebook data cache not found for cache ID: cache-2'')
   \<and> replies (trace (env0\<lparr>isReporterEnabled := True, cacheId := ''cache-2''\<rparr>) message0 runtime0)
     = [ApiResponse (Message ''Notebook data cache not found for cache ID: cache-2'') ''cell-1'' True]
   \<and> mutations (trace (env0\<lparr>isReporterEnabled := True, cacheId := ''cache-2''\<rparr>) message0 runtime0) = []
   \<and> fst (authenticationGate env0 (message0\<lparr>outputId := ''cell-9''\<rparr>) runtime0) = Value (Some ''token'')
   \<and> findLegacyCell env0 (message0\<lparr>outputId := ''cell-9''\<rparr>) = Inl (Error ''Cell not found'')
   \<and> replies (trace env0 (message0\<lparr>outputId := ''cell-9''\<rparr>) runtime0)
     = [ApiResponse (Message ''Cell not found'') ''cell-9'' True]
   \<and> mutations (trace env0 (message0\<lparr>outputId := ''cell-9''\<rparr>) runtime0) = []"
proof -
  let ?env = "env0\<lparr>isReporterEnabled := True, cacheId := ''cache-2''\<rparr>"
  let ?message = "message0\<lparr>outputId := ''cell-9''\<rparr>"
  have g: "fst (authenticationGate ?env message0 runtime0) = Value (Some ''token'')"
    by (rule gate_current) (simp_all add: env0_def)
  have f: "findReporterCell ?env message0
      = Inl (Error ''Notebook data cache not found for cache ID: cache-2'')"
    by (simp add: findReporterCell_def env0_def)
  have g': "fst (authenticationGate env0 ?message runtime0) = Value (Some ''token'')"
    by (rule gate_current) (simp_all add: env0_def)
  have f': "findLegacyCell env0 ?message = Inl (Error ''Cell not found'')"
    by (simp add: findLegacyCell_def env0_def message0_def)
  have "replies (trace ?env message0 runtime0)
      = [ApiResponse (Message ''Notebook data cache not found for cache ID: cache-2'') (outputId message0) True]
      \<and> mutations (trace ?env message0 runtime0) = []"
    using f by (intro fatal_not_found [OF g]) (simp_all add: env0_def)
  moreover have "replies (trace env0 ?message runtime0)
      = [ApiResponse (Message ''Cell not found'') (outputId ?message) True]
      \<and> mutations (trace env0 ?message runtime0) = []"
    using f' by (intro fatal_not_found [OF g']) (simp_all add: env0_def)
  ultimately show ?thesis
    using g f g' f' by (simp add: message0_def)
qed

subsection \<open>C7: starting a run while the slot is occupied\<close>

text \<open>
  C7, as amended.  When a run starts while the slot holds a token source, the head of the
  run cancels that source and then installs a new one, with nothing in between (no
  suspension); these are the first two effects of the new run, so its start precedes the
  cancellation.  The previous source is cancelled, not disposed: the disposed sources are
  unchanged.
\<close>

theorem beginRun_cancels_previous:
  assumes "currentCts s = Some c"
  shows "effects (snd (beginRun s)) = effects s @ [CtsCancel c, CtsNew (ctsCount s)]
       \<and> isCancellationRequested c (snd (beginRun s))
       \<and> disposed (snd (beginRun s)) = disposed s
       \<and> currentCts (snd (beginRun s)) = Some (ctsCount s)
       \<and> fst (beginRun s) = ctsCount s
       \<and> take 2 (trace env message s) = [CtsCancel c, CtsNew (ctsCount s)]"
proof -
  have "take 2 (trace env message s) = [CtsCancel c, CtsNew (ctsCount s)]"
    using run_starts_with_head [of s env message] assms
    by (auto simp add: beginRun_def ctsCancel_def Let_def emit_def prefix_def)
  then show ?thesis
    using assms by (simp add: beginRun_def ctsCancel_def Let_def isCancellationRequested_def)
qed

theorem beginRun_cancels_previous_witness:
  "currentCts (runtime0\<lparr>currentCts := Some 0, ctsCount := 1\<rparr>) = Some 0
   \<and> effects (snd (beginRun (runtime0\<lparr>currentCts := Some 0, ctsCount := 1\<rparr>))) = [CtsCancel 0, CtsNew 1]
   \<and> isCancellationRequested 0 (snd (beginRun (runtime0\<lparr>currentCts := Some 0, ctsCount := 1\<rparr>)))
   \<and> disposed (snd (beginRun (runtime0\<lparr>currentCts := Some 0, ctsCount := 1\<rparr>))) = []
   \<and> currentCts (snd (beginRun (runtime0\<lparr>currentCts := Some 0, ctsCount := 1\<rparr>))) = Some 1
   \<and> take 2 (trace env0 message0 (runtime0\<lparr>currentCts := Some 0, ctsCount := 1\<rparr>))
     = [CtsCancel 0, CtsNew 1]"
proof -
  have h: "currentCts (runtime0\<lparr>currentCts := Some 0, ctsCount := 1\<rparr>) = Some 0"
    by (simp add: runtime0_def)
  from beginRun_cancels_previous [OF h, of env0 message0] h show ?thesis
    by (simp add: runtime0_def)
qed

text \<open>
  The claim as stated fails on disposal: after the head of the new run the previous source
  is cancelled, but nothing has disposed it.
\<close>

theorem beginRun_disposes_counterexample:
  "currentCts (runtime0\<lparr>currentCts := Some 0, ctsCount := 1\<rparr>) = Some 0
   \<and> isCancellationRequested 0 (snd (beginRun (runtime0\<lparr>currentCts := Some 0, ctsCount := 1\<rparr>)))
   \<and> 0 \<notin> set (disposed (snd (beginRun (runtime0\<lparr>currentCts := Some 0, ctsCount := 1\<rparr>))))
   \<and> CtsDispose 0 \<notin> set (effects (snd (beginRun (runtime0\<lparr>currentCts := Some 0, ctsCount := 1\<rparr>))))"
  by (simp add: beginRun_def ctsCancel_def Let_def isCancellationRequested_def runtime0_def emit_def)

subsection \<open>C8: ending a run\<close>



subsection \<open>C9: the hostname override\<close>

text \<open>
  C9, as amended.  In every mutation a run submits: when the OS hostname is
  \<^verbatim>\<open>localhost\<close> or \<^verbatim>\<open>127.0.0.1\<close> and \<^verbatim>\<open>K_SERVICE\<close> is set to a
  non-empty value, the device hostname is that value; for any other OS hostname it is the
  OS hostname, whatever the variable holds.
\<close>

theorem hostname_override:
  "\<forall>m \<in> set (mutations (trace env message s)).
     (osHostname env \<in> {''localhost'', ''127.0.0.1''} \<and> K_SERVICE env = Some v \<and> v \<noteq> []
        \<longrightarrow> submittedHostname m = v)
     \<and> (osHostname env \<notin> {''localhost'', ''127.0.0.1''}
        \<longrightarrow> submittedHostname m = osHostname env)"
  using run_mutations [of env message s]
  by (auto simp add: reporterInput_def legacyInput_def resolveHostname_def truthy_def)

theorem hostname_override_witness:
  "CreateCellExecution (legacyInput (env0\<lparr>osHostname := ''localhost''\<rparr>) message0 liveCell0 terminal0)
     \<in> set (mutations (trace (env0\<lparr>osHostname := ''localhost''\<rparr>) message0 runtime0))
   \<and> K_SERVICE (env0\<lparr>osHostname := ''localhost''\<rparr>) = Some ''svc-7''
   \<and> submittedHostname
        (CreateCellExecution (legacyInput (env0\<lparr>osHostname := ''localhost''\<rparr>) message0 liveCell0 terminal0))
      = ''svc-7''
   \<and> CreateCellExecution (legacyInput env0 message0 liveCell0 terminal0)
        \<in> set (mutations (trace env0 message0 runtime0))
   \<and> osHostname env0 = ''dev-box''
   \<and> submittedHostname (CreateCellExecution (legacyInput env0 message0 liveCell0 terminal0)) = ''dev-box''"
proof -
  let ?env = "env0\<lparr>osHostname := ''localhost''\<rparr>"
  have g: "fst (authenticationGate ?env message0 runtime0) = Value (Some ''token'')"
    by (rule gate_current) (simp_all add: env0_def)
  have f: "findLegacyCell ?env message0 = Inr (liveCell0, terminal0)"
    by (simp add: findLegacyCell_def env0_def message0_def liveCell0_def)
  have mem: "CreateCellExecution (legacyInput ?env message0 liveCell0 terminal0)
      \<in> set (mutations (trace ?env message0 runtime0))"
    using legacy_run(1) [OF g _ _ f] by (simp add: env0_def)
  have mem': "CreateCellExecution (legacyInput env0 message0 liveCell0 terminal0)
      \<in> set (mutations (trace env0 message0 runtime0))"
    by (simp add: trace0)
  have k: "K_SERVICE ?env = Some ''svc-7''" "osHostname ?env = ''localhost''" "osHostname env0 = ''dev-box''"
    by (simp_all add: env0_def)
  from hostname_override [of ?env message0 runtime0 "''svc-7''"] mem k
  have "submittedHostname (CreateCellExecution (legacyInput ?env message0 liveCell0 terminal0)) = ''svc-7''"
    by auto
  moreover from hostname_override [of env0 message0 runtime0 "''svc-7''"] mem' k
  have "submittedHostname (CreateCellExecution (legacyInput env0 message0 liveCell0 terminal0)) = ''dev-box''"
    by auto
  ultimately show ?thesis
    using mem mem' k by simp
qed

text \<open>
  The claim as stated fails when the variable is set to the empty string, which line 174
  treats as unset: the submitted hostname stays \<^verbatim>\<open>localhost\<close>.
\<close>

theorem hostname_override_counterexample:
  "osHostname (env0\<lparr>osHostname := ''localhost'', K_SERVICE := Some ''''\<rparr>) = ''localhost''
   \<and> K_SERVICE (env0\<lparr>osHostname := ''localhost'', K_SERVICE := Some ''''\<rparr>) = Some ''''
   \<and> map submittedHostname
        (mutations (trace (env0\<lparr>osHostname := ''localhost'', K_SERVICE := Some ''''\<rparr>) message0 runtime0))
      = [''localhost'']"
proof -
  let ?env = "env0\<lparr>osHostname := ''localhost'', K_SERVICE := Some ''''\<rparr>"
  have g: "fst (authenticationGate ?env message0 runtime0) = Value (Some ''token'')"
    by (rule gate_current) (simp_all add: env0_def)
  have "mutations (trace ?env message0 runtime0) =
      [CreateCellExecution (legacyInput ?env message0 liveCell0 terminal0)]"
    using legacy_run(1) [OF g _ _ found0(1)] by (simp add: env0_def)
  then show ?thesis
    by (simp add: legacyInput_def resolveHostname_def truthy_def env0_def)
qed

subsection \<open>C10: exit code and process id\<close>

text \<open>
  C10.  Every legacy mutation a run submits is built from the live cell and its terminal;
  its exit code is the runner session's code when the exit status has type
  \<^verbatim>\<open>exit\<close>, 1 when it has type \<^verbatim>\<open>error\<close>, and 0 otherwise, also when
  there is no exit status; its pid is 0 when the terminal reports no process id.
\<close>

theorem exit_code_and_pid:
  "\<forall>input. CreateCellExecution input \<in> set (mutations (trace env message s)) \<longrightarrow>
     (\<exists>cell terminal.
        findLegacyCell env message = Inr (cell, terminal) \<and>
        l_exitCode input =
          (case runnerExitStatusOf terminal of
             None \<Rightarrow> 0
           | Some status \<Rightarrow>
               if statusType status = ''exit'' then code status
               else if statusType status = ''error'' then 1 else 0) \<and>
        (processId terminal = None \<longrightarrow> l_pid input = 0))"
proof (intro allI impI)
  fix input
  assume "CreateCellExecution input \<in> set (mutations (trace env message s))"
  with run_mutations [of env message s]
  obtain cell terminal where found: "findLegacyCell env message = Inr (cell, terminal)"
    and input: "input = legacyInput env message cell terminal"
    by auto
  show "\<exists>cell terminal.
        findLegacyCell env message = Inr (cell, terminal) \<and>
        l_exitCode input =
          (case runnerExitStatusOf terminal of
             None \<Rightarrow> 0
           | Some status \<Rightarrow>
               if statusType status = ''exit'' then code status
               else if statusType status = ''error'' then 1 else 0) \<and>
        (processId terminal = None \<longrightarrow> l_pid input = 0)"
    using found unfolding input
    by (intro exI [of _ cell] exI [of _ terminal]) (simp add: legacyInput_exitCode legacyInput_pid)
qed

theorem exit_code_and_pid_witness:
  "CreateCellExecution (legacyInput env0 message0 liveCell0 terminal0)
     \<in> set (mutations (trace env0 message0 runtime0))
   \<and> findLegacyCell env0 message0 = Inr (liveCell0, terminal0)
   \<and> l_exitCode (legacyInput env0 message0 liveCell0 terminal0) = 3
   \<and> processId terminal0 = None
   \<and> l_pid (legacyInput env0 message0 liveCell0 terminal0) = 0"
proof -
  have mem: "CreateCellExecution (legacyInput env0 message0 liveCell0 terminal0)
      \<in> set (mutations (trace env0 message0 runtime0))"
    by (simp add: trace0)
  have found: "findLegacyCell env0 message0 = Inr (liveCell0, terminal0)"
    by (simp add: findLegacyCell_def env0_def message0_def liveCell0_def)
  from exit_code_and_pid [of env0 message0 runtime0] mem found
  have "l_exitCode (legacyInput env0 message0 liveCell0 terminal0) =
          (case runnerExitStatusOf terminal0 of
             None \<Rightarrow> 0
           | Some status \<Rightarrow>
               if statusType status = ''exit'' then code status
               else if statusType status = ''error'' then 1 else 0)"
    and "processId terminal0 = None \<longrightarrow> l_pid (legacyInput env0 message0 liveCell0 terminal0) = 0"
    by auto
  then show ?thesis
    using mem found by (simp add: runnerExitStatusOf_def terminal0_def)
qed

end
